theory Spec2Isabelle
  imports Main "HOL-Library.Word"
begin

unbundle bit_operations_syntax

section \<open>The mwait driver: data model\<close>

text \<open>
  The driver (\<^verbatim>\<open>src/mwait/include.hpp\<close>, \<^verbatim>\<open>src/mwait/main.cxx\<close>) is built for x64:
  \<^verbatim>\<open>ULONG_PTR\<close> and \<^verbatim>\<open>ULONG64\<close> are 64-bit words, \<^verbatim>\<open>ULONG\<close> and \<^verbatim>\<open>NTSTATUS\<close> are
  32-bit words (\<^verbatim>\<open>NTSTATUS\<close> is read as signed), and the \<^verbatim>\<open>QuadPart\<close> of a
  \<^verbatim>\<open>LARGE_INTEGER\<close> is a 64-bit word read as signed.
\<close>

type_synonym NTSTATUS = "32 word"
type_synonym ULONG = "32 word"
type_synonym ULONG64 = "64 word"
type_synonym ULONG_PTR = "64 word"
type_synonym LONGLONG = "64 word"

definition STATUS_SUCCESS :: NTSTATUS where
  "STATUS_SUCCESS = 0"

text \<open>\<^verbatim>\<open>#define NT_SUCCESS(Status) (((NTSTATUS)(Status)) >= 0)\<close>, a signed comparison.\<close>

definition NT_SUCCESS :: "NTSTATUS \<Rightarrow> bool" where
  "NT_SUCCESS Status = (0 \<le> sint Status)"

text \<open>
  \<^verbatim>\<open>NT_ASSERT(exp)\<close> evaluates \<^verbatim>\<open>exp\<close> in a checked build (\<^verbatim>\<open>DBG\<close>) and raises an
  assertion failure when it is false; in a free build it expands to nothing. The
  result says whether execution goes on past the assertion.
\<close>

definition NT_ASSERT :: "bool \<Rightarrow> bool \<Rightarrow> bool" where
  "NT_ASSERT dbg exp = (if dbg then exp else True)"

subsection \<open>Constants of namespace mw (include.hpp, lines 13 to 22)\<close>

definition Sleep :: LONGLONG where
  "Sleep = - (1 * 100 * 1000)"

definition NoSleep :: LONGLONG where
  "NoSleep = 0"

text \<open>The initial value of the monitored variable \<^verbatim>\<open>mw::TestVariable\<close>.\<close>

definition TestVariable :: ULONG64 where
  "TestVariable = 0"

definition MONITOR_THREAD_CPU_AFFINITY :: ULONG where
  "MONITOR_THREAD_CPU_AFFINITY = 1"

definition WORKER_THREAD_CPU_AFFINITY :: ULONG where
  "WORKER_THREAD_CPU_AFFINITY = 4"

definition MAGIC :: ULONG64 where
  "MAGIC = 0xEEFFEEFFEEFFEEFF"

subsection \<open>Host contracts the constants are passed to\<close>

text \<open>
  \<^verbatim>\<open>KeDelayExecutionThread\<close> and \<^verbatim>\<open>KeWaitForSingleObject\<close> read their interval in
  units of 100 nanoseconds; a negative value is a time relative to now, a value that is
  not negative is an absolute time (and zero, for a wait, means: do not block). The
  length of a relative delay, in nanoseconds:
\<close>

definition relative_delay_ns :: "LONGLONG \<Rightarrow> int option" where
  "relative_delay_ns Interval =
     (if sint Interval < 0 then Some (- sint Interval * 100) else None)"

definition ns_per_ms :: int where
  "ns_per_ms = 1000000"

text \<open>
  \<^verbatim>\<open>KeSetSystemAffinityThread\<close> takes a \<^verbatim>\<open>KAFFINITY\<close> bit mask: the thread may run on
  processor number \<open>n\<close> exactly when bit \<open>n\<close> of the mask is set.
  \<^verbatim>\<open>KeGetCurrentProcessorNumber\<close> returns a processor number.
\<close>

definition affinity_allows :: "ULONG \<Rightarrow> ULONG \<Rightarrow> bool" where
  "affinity_allows Affinity cpu = bit Affinity (unat cpu)"

subsection \<open>Observable actions\<close>

text \<open>
  Each thread of the driver is modelled by the sequence of actions it performs: the
  intrinsics it executes, its loads and stores, and its calls into the host. Values that
  come from outside the thread (time stamps, the content of the monitored cell at a load,
  the status a host call returns) are inputs of the model and are recorded in the action.
\<close>

datatype thread_routine = MonitorRoutine | WorkerRoutine

datatype logmsg =
    MonitoringAddress ULONG_PTR
  | StoreDetected ULONG ULONG_PTR ULONG64 ULONG64 ULONG64
  | UnableToCreateThread NTSTATUS
  | WorkerThreadExited
  | Bye
  | UnableToCreateDevice NTSTATUS
  | UnableToCreateSymbolicLink NTSTATUS
  | UnableToCreateSystemThread NTSTATUS

datatype event =
    disable_interrupts
  | enable_interrupts
  | rdtsc ULONG64
  | mm_monitor ULONG_PTR
  | mm_mwait
  | Load ULONG_PTR ULONG64
  | Store ULONG_PTR ULONG64
  | Log logmsg
  | KeSetSystemAffinityThread ULONG
  | AssertionFailure
  | PsCreateSystemThread thread_routine NTSTATUS
  | KeWaitForSingleObject_Unload LONGLONG NTSTATUS
  | KeDelayExecutionThread LONGLONG
  | PsLookupThreadByThreadId thread_routine NTSTATUS
  | KeWaitForSingleObject_Thread thread_routine
  | ZwClose thread_routine
  | ObfDereferenceObject thread_routine
  | IoCreateDevice NTSTATUS
  | IoCreateSymbolicLink NTSTATUS
  | IoDeleteSymbolicLink
  | IoDeleteDevice
  | KeInitializeEvent
  | KeSetEvent
  | IoCompleteRequest

fun is_Store :: "event \<Rightarrow> bool" where
  "is_Store (Store a v) = True"
| "is_Store _ = False"

fun is_Load :: "event \<Rightarrow> bool" where
  "is_Load (Load a v) = True"
| "is_Load _ = False"

fun is_mm_monitor :: "event \<Rightarrow> bool" where
  "is_mm_monitor (mm_monitor a) = True"
| "is_mm_monitor _ = False"

fun is_StoreDetected :: "event \<Rightarrow> bool" where
  "is_StoreDetected (Log (StoreDetected c a p m d)) = True"
| "is_StoreDetected _ = False"

text \<open>
  How a thread's run ended: it returned, it trapped in an assertion, or it is still in
  its loop when the recorded inputs end (the loops are \<^verbatim>\<open>for ( ;; )\<close> and need not end).
\<close>

datatype outcome = Returned | Trapped | Pending

text \<open>
  The interrupt flag after a sequence of actions: \<^verbatim>\<open>_disable\<close> clears it and
  \<^verbatim>\<open>_enable\<close> sets it.
\<close>

fun interrupts_enabled :: "bool \<Rightarrow> event list \<Rightarrow> bool" where
  "interrupts_enabled f [] = f"
| "interrupts_enabled f (disable_interrupts # es) = interrupts_enabled False es"
| "interrupts_enabled f (enable_interrupts # es) = interrupts_enabled True es"
| "interrupts_enabled f (e # es) = interrupts_enabled f es"

section \<open>INTERRUPT_GUARD (main.cxx, lines 3 to 14)\<close>

text \<open>
  The constructor executes \<^verbatim>\<open>_disable\<close> and the destructor \<^verbatim>\<open>_enable\<close>. A guard that
  is a local variable of a block runs its destructor when control leaves the block, so a
  guarded block performs its actions between the two.
\<close>

definition INTERRUPT_GUARD :: "event list \<Rightarrow> event list" where
  "INTERRUPT_GUARD body = disable_interrupts # body @ [enable_interrupts]"

section \<open>Monitor (main.cxx, lines 16 to 103)\<close>

text \<open>
  The inputs of one pass through the loop body: the time stamp read at line 39, the value
  found in the monitored cell at line 84, and the processor number and time stamp read
  for the report (lines 89 and 93; these two are read only when a report is made).
\<close>

record monitor_input =
  tsc_start :: ULONG64
  cell_value :: ULONG64
  report_cpu :: ULONG
  tsc_report :: ULONG64

definition MostRecentRead_init :: ULONG64 where
  "MostRecentRead_init = 0"

text \<open>
  One pass through the body of the loop (lines 36 to 102). The guard is the first
  declaration of the body, so it is released where the body ends: after the comparison,
  the report and the test for \<^verbatim>\<open>mw::MAGIC\<close>, also when the body is left by \<^verbatim>\<open>break\<close>.
  The result is the actions, the new \<^verbatim>\<open>MostRecentRead\<close> and whether the loop is left.
\<close>

definition Monitor_body ::
  "ULONG_PTR \<Rightarrow> ULONG64 \<Rightarrow> monitor_input \<Rightarrow> event list \<times> ULONG64 \<times> bool" where
  "Monitor_body Address MostRecentRead i =
     (let Start = tsc_start i;
          Previous = MostRecentRead;
          MostRecentRead' = cell_value i
      in (INTERRUPT_GUARD
            ([rdtsc Start, mm_monitor Address, mm_mwait, Load Address MostRecentRead'] @
             (if Previous \<noteq> MostRecentRead'
              then [Log (StoreDetected (report_cpu i) Address Previous MostRecentRead'
                           (tsc_report i - Start))]
              else [])),
          MostRecentRead',
          MostRecentRead' = MAGIC))"

fun Monitor_loop ::
  "ULONG_PTR \<Rightarrow> ULONG64 \<Rightarrow> monitor_input list \<Rightarrow> event list \<times> outcome" where
  "Monitor_loop Address MostRecentRead [] = ([], Pending)"
| "Monitor_loop Address MostRecentRead (i # is) =
     (case Monitor_body Address MostRecentRead i of
        (tr, MostRecentRead', leave) \<Rightarrow>
          if leave then (tr, Returned)
          else (case Monitor_loop Address MostRecentRead' is of
                  (tr', r) \<Rightarrow> (tr @ tr', r)))"

text \<open>
  The thread routine: \<open>dbg\<close> says whether the build is a checked one, \<open>cpu\<close> is what
  \<^verbatim>\<open>KeGetCurrentProcessorNumber\<close> returns in the assertion of line 33.
\<close>

definition Monitor_assertion :: "ULONG \<Rightarrow> bool" where
  "Monitor_assertion cpu = (cpu \<noteq> MONITOR_THREAD_CPU_AFFINITY)"

definition Monitor ::
  "bool \<Rightarrow> ULONG_PTR \<Rightarrow> ULONG \<Rightarrow> monitor_input list \<Rightarrow> event list \<times> outcome" where
  "Monitor dbg Address cpu inputs =
     (let start = [Log (MonitoringAddress Address),
                   KeSetSystemAffinityThread MONITOR_THREAD_CPU_AFFINITY]
      in if NT_ASSERT dbg (Monitor_assertion cpu)
         then (case Monitor_loop Address MostRecentRead_init inputs of
                 (tr, r) \<Rightarrow> (start @ tr, r))
         else (start @ [AssertionFailure], Trapped))"

section \<open>Worker (main.cxx, lines 106 to 179)\<close>

text \<open>
  The inputs of one pass through the loop body: the status of the wait on the unload
  event with a zero timeout (line 136), and the time stamp of line 146 (read only when
  the loop is not left).
\<close>

record worker_input =
  unload_wait :: NTSTATUS
  TimeStamp :: ULONG64

text \<open>The condition of line 148 under which the time stamp is stored.\<close>

definition Worker_writes :: "ULONG64 \<Rightarrow> bool" where
  "Worker_writes ts = (ts AND 0xff = 0)"

text \<open>
  One pass through the body of the loop (lines 134 to 154). \<open>cell\<close> is the content of
  the monitored cell, the one location the thread stores to (through
  \<^verbatim>\<open>Ext->MonitorContext.MonitoredAddress\<close>). The result is the actions, the content of
  the cell afterwards and whether the loop is left.
\<close>

definition Worker_body ::
  "ULONG_PTR \<Rightarrow> ULONG64 \<Rightarrow> worker_input \<Rightarrow> event list \<times> ULONG64 \<times> bool" where
  "Worker_body MonitoredAddress cell i =
     (let IsExiting = (unload_wait i = STATUS_SUCCESS);
          wait = KeWaitForSingleObject_Unload NoSleep (unload_wait i)
      in if IsExiting
         then ([wait, Store MonitoredAddress MAGIC], MAGIC, True)
         else (let ts = TimeStamp i
               in if Worker_writes ts
                  then ([wait, rdtsc ts, Store MonitoredAddress ts,
                         KeDelayExecutionThread Sleep], ts, False)
                  else ([wait, rdtsc ts, KeDelayExecutionThread Sleep], cell, False)))"

fun Worker_loop ::
  "ULONG_PTR \<Rightarrow> ULONG64 \<Rightarrow> worker_input list \<Rightarrow> event list \<times> ULONG64 \<times> outcome" where
  "Worker_loop MonitoredAddress cell [] = ([], cell, Pending)"
| "Worker_loop MonitoredAddress cell (i # is) =
     (case Worker_body MonitoredAddress cell i of
        (tr, cell', leave) \<Rightarrow>
          if leave then (tr, cell', Returned)
          else (case Worker_loop MonitoredAddress cell' is of
                  (tr', cell'', r) \<Rightarrow> (tr @ tr', cell'', r)))"

text \<open>The join of the Monitor thread after the loop (lines 156 to 178).\<close>

definition Worker_join :: "NTSTATUS \<Rightarrow> event list" where
  "Worker_join lookup =
     PsLookupThreadByThreadId MonitorRoutine lookup #
     (if NT_SUCCESS lookup
      then [KeWaitForSingleObject_Thread MonitorRoutine, ZwClose MonitorRoutine,
            ObfDereferenceObject MonitorRoutine]
      else [])"

definition Worker_assertion :: "ULONG \<Rightarrow> bool" where
  "Worker_assertion cpu = (cpu \<noteq> WORKER_THREAD_CPU_AFFINITY)"

text \<open>
  The thread routine: \<open>dbg\<close> and \<open>cpu\<close> as for \<open>Monitor\<close>; \<open>create\<close> is the status
  of \<^verbatim>\<open>PsCreateSystemThread\<close> (line 117) and \<open>lookup\<close> that of
  \<^verbatim>\<open>PsLookupThreadByThreadId\<close> (line 157).
\<close>

definition Worker ::
  "bool \<Rightarrow> ULONG_PTR \<Rightarrow> ULONG \<Rightarrow> NTSTATUS \<Rightarrow> worker_input list \<Rightarrow> NTSTATUS \<Rightarrow> ULONG64
     \<Rightarrow> event list \<times> ULONG64 \<times> outcome" where
  "Worker dbg MonitoredAddress cpu create inputs lookup cell =
     (let pin = [KeSetSystemAffinityThread WORKER_THREAD_CPU_AFFINITY]
      in if \<not> NT_ASSERT dbg (Worker_assertion cpu)
         then (pin @ [AssertionFailure], cell, Trapped)
         else (let start = pin @ [PsCreateSystemThread MonitorRoutine create]
               in if \<not> NT_SUCCESS create
                  then (start @ [Log (UnableToCreateThread create)], cell, Returned)
                  else (case Worker_loop MonitoredAddress cell inputs of
                          (tr, cell', r) \<Rightarrow>
                            if r = Returned
                            then (start @ tr @ Worker_join lookup, cell', Returned)
                            else (start @ tr, cell', r))))"

section \<open>The driver's entry points (main.cxx, lines 181 to 326)\<close>

text \<open>
  \<^verbatim>\<open>DrvCreateClose\<close> completes the request with \<^verbatim>\<open>STATUS_SUCCESS\<close> and no information.
\<close>

record IO_STATUS_BLOCK =
  Status :: NTSTATUS
  Information :: ULONG_PTR

definition DrvCreateClose :: "IO_STATUS_BLOCK \<Rightarrow> event list \<times> IO_STATUS_BLOCK \<times> NTSTATUS" where
  "DrvCreateClose IoStatus =
     ([IoCompleteRequest], IoStatus\<lparr>Information := 0, Status := STATUS_SUCCESS\<rparr>,
      STATUS_SUCCESS)"

text \<open>
  \<^verbatim>\<open>DriverUnload\<close>: \<open>lookup\<close> is the status of \<^verbatim>\<open>PsLookupThreadByThreadId\<close> for the
  Worker thread (line 205).
\<close>

definition DriverUnload :: "NTSTATUS \<Rightarrow> event list" where
  "DriverUnload lookup =
     [KeSetEvent, PsLookupThreadByThreadId WorkerRoutine lookup] @
     (if NT_SUCCESS lookup
      then [KeWaitForSingleObject_Thread WorkerRoutine, Log WorkerThreadExited,
            ZwClose WorkerRoutine, ObfDereferenceObject WorkerRoutine]
      else []) @
     [IoDeleteSymbolicLink, IoDeleteDevice, Log Bye]"

text \<open>
  \<^verbatim>\<open>DriverEntry\<close>: \<open>device\<close> is the status of \<^verbatim>\<open>IoCreateDevice\<close> and \<open>DeviceObject\<close>
  the pointer it left in its out parameter (0 is \<^verbatim>\<open>nullptr\<close>, the value the variable
  is initialised with), \<open>symlink\<close> the status of \<^verbatim>\<open>IoCreateSymbolicLink\<close> and
  \<open>thread\<close> that of \<^verbatim>\<open>PsCreateSystemThread\<close> for the Worker. The last two are read
  only when the calls before them succeeded. The result is the actions and the status
  returned to the host; the host finishes loading the driver exactly when that status
  satisfies \<^verbatim>\<open>NT_SUCCESS\<close>. The assignments to the device extension and to the driver
  object (lines 291 to 305) call nothing but \<^verbatim>\<open>KeInitializeEvent\<close>.
\<close>

definition DriverEntry ::
  "NTSTATUS \<Rightarrow> ULONG_PTR \<Rightarrow> NTSTATUS \<Rightarrow> NTSTATUS \<Rightarrow> event list \<times> NTSTATUS" where
  "DriverEntry device DeviceObject symlink thread =
     (let (tr, Status, CreatedSymbolicLink) =
            (if \<not> NT_SUCCESS device
             then ([IoCreateDevice device, Log (UnableToCreateDevice device)], device, False)
             else if \<not> NT_SUCCESS symlink
             then ([IoCreateDevice device, IoCreateSymbolicLink symlink,
                    Log (UnableToCreateSymbolicLink symlink)], symlink, False)
             else ([IoCreateDevice device, IoCreateSymbolicLink symlink], symlink, True))
      in if \<not> NT_SUCCESS Status
         then (tr @ (if CreatedSymbolicLink then [IoDeleteSymbolicLink] else []) @
                    (if DeviceObject \<noteq> 0 then [IoDeleteDevice] else []),
               Status)
         else (let tr' = tr @ [KeInitializeEvent, PsCreateSystemThread WorkerRoutine thread]
               in if \<not> NT_SUCCESS thread
                  then (tr' @ [Log (UnableToCreateSystemThread thread),
                               IoDeleteSymbolicLink, IoDeleteDevice],
                        STATUS_SUCCESS)
                  else (tr', STATUS_SUCCESS)))"

section \<open>Auxiliary facts\<close>

lemma Worker_writes_not_MAGIC: "Worker_writes t \<Longrightarrow> t \<noteq> MAGIC"
  by (auto simp: Worker_writes_def MAGIC_def)

text \<open>Splitting a sequence at an action that one of its two parts does not contain.\<close>

lemma split_at_absent:
  "x \<notin> set ys \<Longrightarrow> pre @ x # post = ys @ zs \<Longrightarrow>
   \<exists>pre'. pre = ys @ pre' \<and> pre' @ x # post = zs"
  by (induction ys arbitrary: pre) (auto simp: append_eq_Cons_conv)

lemma split_at_absent_right:
  "x \<notin> set zs \<Longrightarrow> pre @ x # post = ys @ zs \<Longrightarrow>
   \<exists>post'. post = post' @ zs \<and> ys = pre @ x # post'"
  by (induction pre arbitrary: ys) (auto simp: Cons_eq_append_conv)

subsection \<open>The Monitor loop, pass by pass\<close>

lemma Monitor_loop_Cons:
  "Monitor_loop a m (i # is) =
     (if cell_value i = MAGIC then (fst (Monitor_body a m i), Returned)
      else (fst (Monitor_body a m i) @ fst (Monitor_loop a (cell_value i) is),
            snd (Monitor_loop a (cell_value i) is)))"
  by (simp add: Monitor_body_def Let_def split: prod.splits)

declare Monitor_loop.simps(2) [simp del]

lemma Monitor_loop_append:
  "\<forall>x\<in>set xs. cell_value x \<noteq> MAGIC \<Longrightarrow>
   Monitor_loop a m (xs @ ys) =
     (fst (Monitor_loop a m xs) @ fst (Monitor_loop a (last (m # map cell_value xs)) ys),
      snd (Monitor_loop a (last (m # map cell_value xs)) ys))"
proof (induction xs arbitrary: m)
  case Nil
  then show ?case by simp
next
  case (Cons x xs)
  then show ?case by (simp add: Monitor_loop_Cons)
qed

lemma Monitor_body_loads: "length (filter is_Load (fst (Monitor_body a m i))) = 1"
  by (simp add: Monitor_body_def Let_def INTERRUPT_GUARD_def)

lemma Monitor_body_arms: "length (filter is_mm_monitor (fst (Monitor_body a m i))) = 1"
  by (simp add: Monitor_body_def Let_def INTERRUPT_GUARD_def)

lemma Monitor_body_reports:
  "filter is_StoreDetected (fst (Monitor_body a m i)) =
     (if m \<noteq> cell_value i
      then [Log (StoreDetected (report_cpu i) a m (cell_value i) (tsc_report i - tsc_start i))]
      else [])"
  by (simp add: Monitor_body_def Let_def INTERRUPT_GUARD_def)

lemma Monitor_body_no_Store: "filter is_Store (fst (Monitor_body a m i)) = []"
  by (simp add: Monitor_body_def Let_def INTERRUPT_GUARD_def)

lemma Monitor_loop_loads:
  "\<forall>x\<in>set xs. cell_value x \<noteq> MAGIC \<Longrightarrow>
   length (filter is_Load (fst (Monitor_loop a m xs))) = length xs"
  by (induction xs arbitrary: m) (simp_all add: Monitor_loop_Cons Monitor_body_loads)

lemma Monitor_loop_arms:
  "\<forall>x\<in>set xs. cell_value x \<noteq> MAGIC \<Longrightarrow>
   length (filter is_mm_monitor (fst (Monitor_loop a m xs))) = length xs"
  by (induction xs arbitrary: m) (simp_all add: Monitor_loop_Cons Monitor_body_arms)

lemma Monitor_loop_no_Store: "filter is_Store (fst (Monitor_loop a m xs)) = []"
  by (induction xs arbitrary: m) (simp_all add: Monitor_loop_Cons Monitor_body_no_Store)

lemma Monitor_no_Store: "filter is_Store (fst (Monitor dbg a cpu xs)) = []"
  using Monitor_loop_no_Store [of a MostRecentRead_init xs]
  by (auto simp: Monitor_def Let_def split: prod.splits)

text \<open>
  With the affinity mask of the Monitor in effect the thread runs on processor 0, and
  the assertion of line 33 holds there.
\<close>

lemma Monitor_assertion_when_pinned:
  "affinity_allows MONITOR_THREAD_CPU_AFFINITY cpu \<Longrightarrow> Monitor_assertion cpu"
  by (auto simp: affinity_allows_def Monitor_assertion_def MONITOR_THREAD_CPU_AFFINITY_def)

subsection \<open>The Worker loop, pass by pass\<close>

lemma Worker_loop_Cons:
  "Worker_loop a c (i # is) =
     (if unload_wait i = STATUS_SUCCESS
      then ([KeWaitForSingleObject_Unload NoSleep STATUS_SUCCESS, Store a MAGIC], MAGIC,
            Returned)
      else (fst (Worker_body a c i) @ fst (Worker_loop a (fst (snd (Worker_body a c i))) is),
            snd (Worker_loop a (fst (snd (Worker_body a c i))) is)))"
  by (simp add: Worker_body_def Let_def split: prod.splits)

declare Worker_loop.simps(2) [simp del]

lemma Worker_body_no_sentinel:
  "unload_wait i \<noteq> STATUS_SUCCESS \<Longrightarrow> Store b MAGIC \<notin> set (fst (Worker_body a c i))"
  by (auto simp: Worker_body_def Let_def dest: Worker_writes_not_MAGIC)

lemma Worker_loop_sentinel:
  "fst (Worker_loop a c is) = pre @ Store b MAGIC # post \<Longrightarrow>
     post = [] \<and> pre \<noteq> [] \<and>
     last pre = KeWaitForSingleObject_Unload NoSleep STATUS_SUCCESS \<and>
     snd (snd (Worker_loop a c is)) = Returned"
proof (induction "is" arbitrary: c pre)
  case Nil
  then show ?case by simp
next
  case (Cons i "is")
  show ?case
  proof (cases "unload_wait i = STATUS_SUCCESS")
    case True
    with Cons.prems
    have "pre @ Store b MAGIC # post =
            [KeWaitForSingleObject_Unload NoSleep STATUS_SUCCESS, Store a MAGIC]"
      by (simp add: Worker_loop_Cons)
    then have "pre = [KeWaitForSingleObject_Unload NoSleep STATUS_SUCCESS] \<and> post = []"
      by (auto simp: append_eq_Cons_conv)
    with True show ?thesis by (simp add: Worker_loop_Cons)
  next
    case False
    let ?c = "fst (snd (Worker_body a c i))"
    from False Cons.prems
    have eq: "pre @ Store b MAGIC # post = fst (Worker_body a c i) @ fst (Worker_loop a ?c is)"
      by (simp add: Worker_loop_Cons)
    from split_at_absent [OF Worker_body_no_sentinel [OF False] eq]
    obtain pre' where pre: "pre = fst (Worker_body a c i) @ pre'"
      and rest: "fst (Worker_loop a ?c is) = pre' @ Store b MAGIC # post"
      by auto
    from Cons.IH [OF rest] pre False show ?thesis
      by (simp add: Worker_loop_Cons)
  qed
qed

lemma Worker_join_no_Store: "\<forall>e\<in>set (Worker_join lookup). \<not> is_Store e"
  by (auto simp: Worker_join_def)

text \<open>What the Worker stores, and where.\<close>

lemma Worker_body_stores:
  "Store b v \<in> set (fst (Worker_body a c i)) \<Longrightarrow>
   b = a \<and> (if unload_wait i = STATUS_SUCCESS then v = MAGIC
            else Worker_writes (TimeStamp i) \<and> v = TimeStamp i)"
  by (auto simp: Worker_body_def Let_def split: if_splits)

lemma Worker_loop_stores:
  "Store b v \<in> set (fst (Worker_loop a c is)) \<Longrightarrow>
   b = a \<and> (v = MAGIC \<or>
            (\<exists>i\<in>set is. unload_wait i \<noteq> STATUS_SUCCESS \<and> Worker_writes (TimeStamp i) \<and>
                         v = TimeStamp i))"
proof (induction "is" arbitrary: c)
  case Nil
  then show ?case by simp
next
  case (Cons i "is")
  show ?case
  proof (cases "unload_wait i = STATUS_SUCCESS")
    case True
    with Cons.prems show ?thesis
      by (auto simp: Worker_loop_Cons)
  next
    case False
    with Cons.prems
    consider "Store b v \<in> set (fst (Worker_body a c i))"
      | "Store b v \<in> set (fst (Worker_loop a (fst (snd (Worker_body a c i))) is))"
      by (auto simp: Worker_loop_Cons)
    then show ?thesis
    proof cases
      case 1
      from Worker_body_stores [OF 1] False show ?thesis by auto
    next
      case 2
      from Cons.IH [OF 2] show ?thesis by auto
    qed
  qed
qed

lemma Worker_stores:
  assumes "Store b v \<in> set (fst (Worker dbg a cpu create is lookup cell))"
  shows "b = a \<and> (v = MAGIC \<or>
            (\<exists>i\<in>set is. unload_wait i \<noteq> STATUS_SUCCESS \<and> Worker_writes (TimeStamp i) \<and>
                         v = TimeStamp i))"
proof -
  obtain tr c' r where loop: "Worker_loop a cell is = (tr, c', r)"
    by (cases "Worker_loop a cell is") auto
  from assms loop have "Store b v \<in> set tr"
    by (auto simp: Worker_def Worker_join_def Let_def split: if_splits)
  with loop show ?thesis
    using Worker_loop_stores [of b v a cell "is"] by simp
qed

lemma interrupts_enabled_append:
  "interrupts_enabled f (xs @ ys) = interrupts_enabled (interrupts_enabled f xs) ys"
  by (induction f xs rule: interrupts_enabled.induct) simp_all


section \<open>Properties of the driver\<close>

text \<open>
  C1. When the creation of the Worker thread fails, \<^verbatim>\<open>DriverEntry\<close> is to undo the
  symbolic link and the device and to return a status that is not a success. At the
  input below (device and link created, thread creation failing with
  \<^verbatim>\<open>STATUS_INSUFFICIENT_RESOURCES\<close>) the code does undo both, and then returns
  \<^verbatim>\<open>STATUS_SUCCESS\<close> (line 325), which satisfies \<^verbatim>\<open>NT_SUCCESS\<close>: the failure is not
  reported to the host. The two earlier failure paths return \<^verbatim>\<open>Status\<close> (line 284).
\<close>

theorem DriverEntry_thread_failure_returns_success:
  "\<not> NT_SUCCESS 0xC000009A \<and>
   DriverEntry STATUS_SUCCESS 0xFFFFA00012345678 STATUS_SUCCESS 0xC000009A =
     ([IoCreateDevice STATUS_SUCCESS, IoCreateSymbolicLink STATUS_SUCCESS, KeInitializeEvent,
       PsCreateSystemThread WorkerRoutine 0xC000009A,
       Log (UnableToCreateSystemThread 0xC000009A), IoDeleteSymbolicLink, IoDeleteDevice],
      STATUS_SUCCESS) \<and>
   NT_SUCCESS (snd (DriverEntry STATUS_SUCCESS 0xFFFFA00012345678 STATUS_SUCCESS 0xC000009A))"
  by (simp add: DriverEntry_def NT_SUCCESS_def STATUS_SUCCESS_def)

text \<open>
  C2, as stated: in a pass of the Worker loop that does not observe the unload signal the
  Worker sleeps for exactly 100 milliseconds. In the pass below the interval handed to
  \<^verbatim>\<open>KeDelayExecutionThread\<close> is \<^verbatim>\<open>mw::Sleep\<close>, and its length is not 100 milliseconds.
\<close>

theorem Worker_delay_is_not_100_ms:
  "fst (Worker_body 0x1000 TestVariable \<lparr>unload_wait = 0x102, TimeStamp = 1\<rparr>) =
     [KeWaitForSingleObject_Unload NoSleep 0x102, rdtsc 1, KeDelayExecutionThread Sleep] \<and>
   relative_delay_ns Sleep \<noteq> Some (100 * ns_per_ms)"
  by (simp add: Worker_body_def Worker_writes_def STATUS_SUCCESS_def relative_delay_ns_def
        Sleep_def ns_per_ms_def)

text \<open>
  C2, amended: in every pass of the Worker loop that does not observe the unload signal,
  the loop is not left and the last action of the pass is the one call of
  \<^verbatim>\<open>KeDelayExecutionThread\<close> with the interval \<^verbatim>\<open>mw::Sleep\<close>, which is \<open>-100000\<close> units
  of 100 nanoseconds: a relative delay of 10 milliseconds.
\<close>

theorem Worker_body_delay:
  "unload_wait i \<noteq> STATUS_SUCCESS \<Longrightarrow>
   \<not> snd (snd (Worker_body a cell i)) \<and>
   last (fst (Worker_body a cell i)) = KeDelayExecutionThread Sleep \<and>
   filter (\<lambda>e. e = KeDelayExecutionThread Sleep) (fst (Worker_body a cell i)) =
     [KeDelayExecutionThread Sleep] \<and>
   sint Sleep = - 100000 \<and>
   relative_delay_ns Sleep = Some (10 * ns_per_ms)"
  by (simp add: Worker_body_def Let_def relative_delay_ns_def Sleep_def ns_per_ms_def)

theorem Worker_body_delay_witness:
  "unload_wait \<lparr>unload_wait = 0x102, TimeStamp = 0x1200\<rparr> \<noteq> STATUS_SUCCESS \<and>
   last (fst (Worker_body 0x1000 0 \<lparr>unload_wait = 0x102, TimeStamp = 0x1200\<rparr>)) =
     KeDelayExecutionThread Sleep \<and>
   relative_delay_ns Sleep = Some (10 * ns_per_ms)"
proof -
  have h: "unload_wait \<lparr>unload_wait = 0x102, TimeStamp = 0x1200\<rparr> \<noteq> STATUS_SUCCESS"
    by (simp add: STATUS_SUCCESS_def)
  show ?thesis
    using h Worker_body_delay [OF h, of "0x1000" 0] by simp
qed

text \<open>
  C3. For any sequence of inputs of the Monitor loop: at the first pass whose sampled value
  is \<^verbatim>\<open>mw::MAGIC\<close> the loop is left and the routine returns, whatever inputs would
  follow; the actions are those of the run that ends with that pass, so the cell has been
  armed and sampled once per pass up to and including that one, and not again.
\<close>

theorem Monitor_loop_stops_at_MAGIC:
  assumes "\<forall>x\<in>set xs. cell_value x \<noteq> MAGIC" and "cell_value i = MAGIC"
  shows "snd (Monitor_loop a m (xs @ i # ys)) = Returned \<and>
         fst (Monitor_loop a m (xs @ i # ys)) = fst (Monitor_loop a m (xs @ [i])) \<and>
         length (filter is_Load (fst (Monitor_loop a m (xs @ i # ys)))) = Suc (length xs) \<and>
         length (filter is_mm_monitor (fst (Monitor_loop a m (xs @ i # ys)))) =
           Suc (length xs)"
  using assms
  by (simp add: Monitor_loop_append Monitor_loop_Cons Monitor_loop_loads Monitor_loop_arms
        Monitor_body_loads Monitor_body_arms)

theorem Monitor_loop_stops_at_MAGIC_witness:
  "cell_value \<lparr>tsc_start = 10, cell_value = 5, report_cpu = 0, tsc_report = 25\<rparr> \<noteq> MAGIC \<and>
   cell_value \<lparr>tsc_start = 30, cell_value = MAGIC, report_cpu = 0, tsc_report = 45\<rparr> = MAGIC \<and>
   Monitor_loop 0x1000 0
     ([\<lparr>tsc_start = 10, cell_value = 5, report_cpu = 0, tsc_report = 25\<rparr>] @
      \<lparr>tsc_start = 30, cell_value = MAGIC, report_cpu = 0, tsc_report = 45\<rparr> #
      [\<lparr>tsc_start = 50, cell_value = 7, report_cpu = 0, tsc_report = 65\<rparr>]) =
   ([disable_interrupts, rdtsc 10, mm_monitor 0x1000, mm_mwait, Load 0x1000 5,
     Log (StoreDetected 0 0x1000 0 5 15), enable_interrupts,
     disable_interrupts, rdtsc 30, mm_monitor 0x1000, mm_mwait, Load 0x1000 MAGIC,
     Log (StoreDetected 0 0x1000 5 MAGIC 15), enable_interrupts], Returned)"
proof -
  let ?x = "\<lparr>tsc_start = 10, cell_value = 5, report_cpu = 0, tsc_report = 25\<rparr>"
  let ?i = "\<lparr>tsc_start = 30, cell_value = MAGIC, report_cpu = 0, tsc_report = 45\<rparr>"
  let ?y = "\<lparr>tsc_start = 50, cell_value = 7, report_cpu = 0, tsc_report = 65\<rparr>"
  have m: "(5 :: ULONG64) \<noteq> MAGIC" by (simp add: MAGIC_def)
  have h1: "\<forall>x\<in>set [?x]. cell_value x \<noteq> MAGIC" using m by simp
  have h2: "cell_value ?i = MAGIC" by simp
  have tr: "fst (Monitor_loop 0x1000 0 ([?x] @ [?i])) =
       [disable_interrupts, rdtsc 10, mm_monitor 0x1000, mm_mwait, Load 0x1000 5,
        Log (StoreDetected 0 0x1000 0 5 15), enable_interrupts,
        disable_interrupts, rdtsc 30, mm_monitor 0x1000, mm_mwait, Load 0x1000 MAGIC,
        Log (StoreDetected 0 0x1000 5 MAGIC 15), enable_interrupts]"
    using m by (simp add: Monitor_loop_Cons Monitor_body_def INTERRUPT_GUARD_def)
  from Monitor_loop_stops_at_MAGIC [OF h1 h2, of "0x1000" 0 "[?y]"] tr m
  show ?thesis by (simp add: prod_eq_iff)
qed

text \<open>
  C4. In every pass of the Monitor loop that is reached (no earlier pass sampled
  \<^verbatim>\<open>mw::MAGIC\<close>), the actions of the pass follow those of the passes before it, and the
  pass makes exactly one store-detected report, of the previous and the new value, when
  the value sampled in the pass before (0 before the first pass) differs from the
  value it samples, and no report when the two are equal.
\<close>

theorem Monitor_loop_report_on_change:
  assumes "\<forall>x\<in>set xs. cell_value x \<noteq> MAGIC"
  shows "fst (Monitor_loop a MostRecentRead_init (xs @ [i])) =
           fst (Monitor_loop a MostRecentRead_init xs) @
           fst (Monitor_body a (last (MostRecentRead_init # map cell_value xs)) i) \<and>
         filter is_StoreDetected
           (fst (Monitor_body a (last (MostRecentRead_init # map cell_value xs)) i)) =
           (if last (MostRecentRead_init # map cell_value xs) \<noteq> cell_value i
            then [Log (StoreDetected (report_cpu i) a
                         (last (MostRecentRead_init # map cell_value xs)) (cell_value i)
                         (tsc_report i - tsc_start i))]
            else []) \<and>
         MostRecentRead_init = 0"
  using assms
  by (simp add: Monitor_loop_append Monitor_loop_Cons Monitor_body_reports
        MostRecentRead_init_def)

theorem Monitor_loop_report_on_change_witness:
  "cell_value \<lparr>tsc_start = 10, cell_value = 5, report_cpu = 0, tsc_report = 25\<rparr> \<noteq> MAGIC \<and>
   filter is_StoreDetected
     (fst (Monitor_body 0x1000 5
        \<lparr>tsc_start = 30, cell_value = 5, report_cpu = 0, tsc_report = 45\<rparr>)) = [] \<and>
   filter is_StoreDetected
     (fst (Monitor_body 0x1000 5
        \<lparr>tsc_start = 30, cell_value = 6, report_cpu = 0, tsc_report = 45\<rparr>)) =
     [Log (StoreDetected 0 0x1000 5 6 15)]"
proof -
  let ?x = "\<lparr>tsc_start = 10, cell_value = 5, report_cpu = 0, tsc_report = 25\<rparr>"
  have m: "(5 :: ULONG64) \<noteq> MAGIC" by (simp add: MAGIC_def)
  have h: "\<forall>x\<in>set [?x]. cell_value x \<noteq> MAGIC" using m by simp
  from m
    Monitor_loop_report_on_change [OF h, of "0x1000"
      "\<lparr>tsc_start = 30, cell_value = 5, report_cpu = 0, tsc_report = 45\<rparr>"]
    Monitor_loop_report_on_change [OF h, of "0x1000"
      "\<lparr>tsc_start = 30, cell_value = 6, report_cpu = 0, tsc_report = 45\<rparr>"]
  show ?thesis by simp
qed

text \<open>
  C5. In every run of the Worker: a store of \<^verbatim>\<open>mw::MAGIC\<close> comes directly after a
  wait on the unload event that returned \<^verbatim>\<open>STATUS_SUCCESS\<close> (the unload signal was
  observed), and what the Worker does after that store is the join of the Monitor thread
  and nothing else: no store follows it.
\<close>

theorem Worker_sentinel_after_unload:
  assumes "fst (Worker dbg a cpu create inputs lookup cell) = pre @ Store b MAGIC # post"
  shows "pre \<noteq> [] \<and> last pre = KeWaitForSingleObject_Unload NoSleep STATUS_SUCCESS \<and>
         post = Worker_join lookup \<and> filter is_Store post = [] \<and>
         hd post = PsLookupThreadByThreadId MonitorRoutine lookup"
proof -
  let ?start = "[KeSetSystemAffinityThread WORKER_THREAD_CPU_AFFINITY,
                 PsCreateSystemThread MonitorRoutine create]"
  obtain tr c' r where loop: "Worker_loop a cell inputs = (tr, c', r)"
    by (cases "Worker_loop a cell inputs") auto
  have mem: "Store b MAGIC \<in> set (fst (Worker dbg a cpu create inputs lookup cell))"
    by (simp add: assms)
  have ok1: "NT_ASSERT dbg (Worker_assertion cpu)"
  proof (rule ccontr)
    assume "\<not> NT_ASSERT dbg (Worker_assertion cpu)"
    then have "fst (Worker dbg a cpu create inputs lookup cell) =
                 [KeSetSystemAffinityThread WORKER_THREAD_CPU_AFFINITY, AssertionFailure]"
      by (simp add: Worker_def)
    with mem show False by simp
  qed
  have ok2: "NT_SUCCESS create"
  proof (rule ccontr)
    assume "\<not> NT_SUCCESS create"
    with ok1 have "fst (Worker dbg a cpu create inputs lookup cell) =
                 ?start @ [Log (UnableToCreateThread create)]"
      by (simp add: Worker_def)
    with mem show False by simp
  qed
  have abs: "Store b MAGIC \<notin> set ?start" by simp
  have nojoin: "Store b MAGIC \<notin> set (Worker_join lookup)"
    by (simp add: Worker_join_def)
  have r: "r = Returned"
  proof (rule ccontr)
    assume nr: "r \<noteq> Returned"
    with ok1 ok2 loop assms have "pre @ Store b MAGIC # post = ?start @ tr"
      by (simp add: Worker_def)
    from split_at_absent [OF abs this] obtain p1 where
      "fst (Worker_loop a cell inputs) = p1 @ Store b MAGIC # post"
      using loop by auto
    from Worker_loop_sentinel [OF this] loop nr show False by simp
  qed
  with ok1 ok2 loop assms
  have "pre @ Store b MAGIC # post = ?start @ (tr @ Worker_join lookup)"
    by (simp add: Worker_def)
  from split_at_absent [OF abs this] obtain p1 where
    p1: "pre = ?start @ p1" and e1: "p1 @ Store b MAGIC # post = tr @ Worker_join lookup"
    by auto
  from split_at_absent_right [OF nojoin e1] obtain q where
    q: "post = q @ Worker_join lookup"
    and e2: "fst (Worker_loop a cell inputs) = p1 @ Store b MAGIC # q"
    using loop by auto
  from Worker_loop_sentinel [OF e2] have "q = []" "p1 \<noteq> []"
    "last p1 = KeWaitForSingleObject_Unload NoSleep STATUS_SUCCESS" by simp_all
  with p1 q show ?thesis
    by (simp add: Worker_join_def)
qed

theorem Worker_sentinel_after_unload_witness:
  "fst (Worker True 0x1000 2 STATUS_SUCCESS
          [\<lparr>unload_wait = 0x102, TimeStamp = 0x1200\<rparr>,
           \<lparr>unload_wait = STATUS_SUCCESS, TimeStamp = 7\<rparr>] STATUS_SUCCESS 0) =
     [KeSetSystemAffinityThread WORKER_THREAD_CPU_AFFINITY,
      PsCreateSystemThread MonitorRoutine STATUS_SUCCESS,
      KeWaitForSingleObject_Unload NoSleep 0x102, rdtsc 0x1200, Store 0x1000 0x1200,
      KeDelayExecutionThread Sleep,
      KeWaitForSingleObject_Unload NoSleep STATUS_SUCCESS] @
     Store 0x1000 MAGIC #
     [PsLookupThreadByThreadId MonitorRoutine STATUS_SUCCESS,
      KeWaitForSingleObject_Thread MonitorRoutine, ZwClose MonitorRoutine,
      ObfDereferenceObject MonitorRoutine] \<and>
   Worker_join STATUS_SUCCESS =
     [PsLookupThreadByThreadId MonitorRoutine STATUS_SUCCESS,
      KeWaitForSingleObject_Thread MonitorRoutine, ZwClose MonitorRoutine,
      ObfDereferenceObject MonitorRoutine]"
proof -
  have h: "fst (Worker True 0x1000 2 STATUS_SUCCESS
          [\<lparr>unload_wait = 0x102, TimeStamp = 0x1200\<rparr>,
           \<lparr>unload_wait = STATUS_SUCCESS, TimeStamp = 7\<rparr>] STATUS_SUCCESS 0) =
     [KeSetSystemAffinityThread WORKER_THREAD_CPU_AFFINITY,
      PsCreateSystemThread MonitorRoutine STATUS_SUCCESS,
      KeWaitForSingleObject_Unload NoSleep 0x102, rdtsc 0x1200, Store 0x1000 0x1200,
      KeDelayExecutionThread Sleep,
      KeWaitForSingleObject_Unload NoSleep STATUS_SUCCESS] @
     Store 0x1000 MAGIC #
     [PsLookupThreadByThreadId MonitorRoutine STATUS_SUCCESS,
      KeWaitForSingleObject_Thread MonitorRoutine, ZwClose MonitorRoutine,
      ObfDereferenceObject MonitorRoutine]"
    by (simp add: Worker_def Worker_loop_Cons Worker_body_def Worker_writes_def
          Worker_join_def NT_ASSERT_def Worker_assertion_def WORKER_THREAD_CPU_AFFINITY_def
          NT_SUCCESS_def STATUS_SUCCESS_def)
  from h Worker_sentinel_after_unload [OF h] show ?thesis by simp
qed

text \<open>
  C6. The assertion of the Monitor is to verify that the processor the thread runs on
  differs from the one the Worker is bound to. The code compares the processor number
  with the Monitor's own constant \<^verbatim>\<open>MONITOR_THREAD_CPU_AFFINITY\<close>: on processor 2, the
  one the Worker's affinity mask 4 selects, the assertion holds and a checked build goes
  on into the loop.
\<close>

theorem Monitor_assertion_passes_on_Worker_processor:
  "affinity_allows WORKER_THREAD_CPU_AFFINITY 2 \<and> Monitor_assertion 2 \<and>
   Monitor True 0x1000 2 [] =
     ([Log (MonitoringAddress 0x1000), KeSetSystemAffinityThread MONITOR_THREAD_CPU_AFFINITY],
      Pending) \<and>
   Monitor_assertion WORKER_THREAD_CPU_AFFINITY"
  by (simp add: affinity_allows_def WORKER_THREAD_CPU_AFFINITY_def Monitor_assertion_def
        MONITOR_THREAD_CPU_AFFINITY_def Monitor_def NT_ASSERT_def)

text \<open>
  C7, as stated: interrupts are enabled again directly after the wait instruction, and
  are not disabled while the cell is sampled and the report is made. In the pass below
  the action after \<^verbatim>\<open>_mm_mwait\<close> is the load, not \<^verbatim>\<open>_enable\<close>, and the interrupt flag
  is clear when the load and when the report are executed.
\<close>

theorem Monitor_body_samples_with_interrupts_off:
  "fst (Monitor_body 0x1000 0
          \<lparr>tsc_start = 10, cell_value = 5, report_cpu = 0, tsc_report = 25\<rparr>) =
     [disable_interrupts, rdtsc 10, mm_monitor 0x1000, mm_mwait, Load 0x1000 5,
      Log (StoreDetected 0 0x1000 0 5 15), enable_interrupts] \<and>
   \<not> interrupts_enabled True
       [disable_interrupts, rdtsc 10, mm_monitor 0x1000, mm_mwait] \<and>
   \<not> interrupts_enabled True
       [disable_interrupts, rdtsc 10, mm_monitor 0x1000, mm_mwait, Load 0x1000 5]"
  by (simp add: Monitor_body_def INTERRUPT_GUARD_def)

text \<open>
  C7, amended: in every pass of the Monitor loop interrupts are disabled first, before the
  watch is armed, and are enabled again by the last action of the pass, which is the
  only \<^verbatim>\<open>_enable\<close> of the pass: the flag is clear when each action after the first is
  executed (arming, waiting, sampling the cell and reporting among them) and set once
  the pass is over.
\<close>

theorem Monitor_body_interrupt_window:
  "take 5 (fst (Monitor_body a m i)) =
     [disable_interrupts, rdtsc (tsc_start i), mm_monitor a, mm_mwait, Load a (cell_value i)] \<and>
   last (fst (Monitor_body a m i)) = enable_interrupts \<and>
   filter (\<lambda>e. e = enable_interrupts) (fst (Monitor_body a m i)) = [enable_interrupts] \<and>
   interrupts_enabled f (fst (Monitor_body a m i)) \<and>
   (\<forall>n. 0 < n \<and> n < length (fst (Monitor_body a m i)) \<longrightarrow>
        \<not> interrupts_enabled f (take n (fst (Monitor_body a m i))))"
  by (auto simp: Monitor_body_def INTERRUPT_GUARD_def Let_def less_Suc_eq take_Cons')

theorem Monitor_body_interrupt_window_witness:
  "(0 :: nat) < 5 \<and>
   5 < length (fst (Monitor_body 0x1000 0
         \<lparr>tsc_start = 10, cell_value = 5, report_cpu = 0, tsc_report = 25\<rparr>)) \<and>
   \<not> interrupts_enabled True (take 5 (fst (Monitor_body 0x1000 0
         \<lparr>tsc_start = 10, cell_value = 5, report_cpu = 0, tsc_report = 25\<rparr>))) \<and>
   take 5 (fst (Monitor_body 0x1000 0
         \<lparr>tsc_start = 10, cell_value = 5, report_cpu = 0, tsc_report = 25\<rparr>)) =
     [disable_interrupts, rdtsc 10, mm_monitor 0x1000, mm_mwait, Load 0x1000 5]"
proof -
  let ?i = "\<lparr>tsc_start = 10, cell_value = 5, report_cpu = 0, tsc_report = 25\<rparr>"
  have len: "(0 :: nat) < 5 \<and> 5 < length (fst (Monitor_body 0x1000 0 ?i))"
    by (simp add: Monitor_body_def INTERRUPT_GUARD_def)
  from Monitor_body_interrupt_window [of "0x1000" 0 ?i True]
  have "take 5 (fst (Monitor_body 0x1000 0 ?i)) =
          [disable_interrupts, rdtsc 10, mm_monitor 0x1000, mm_mwait, Load 0x1000 5]"
    and "\<forall>n. 0 < n \<and> n < length (fst (Monitor_body 0x1000 0 ?i)) \<longrightarrow>
           \<not> interrupts_enabled True (take n (fst (Monitor_body 0x1000 0 ?i)))"
    by simp_all
  with len show ?thesis by blast
qed

text \<open>
  C8. No pass of the Monitor loop, and no run of the Monitor routine, stores anything;
  each pass loads the monitored cell. Every store of the Worker goes to the monitored
  address and writes either \<^verbatim>\<open>mw::MAGIC\<close> or the time stamp of a pass that did not observe
  the unload signal and whose time stamp has a zero low byte. \<^verbatim>\<open>DriverEntry\<close>,
  \<^verbatim>\<open>DriverUnload\<close> and \<^verbatim>\<open>DrvCreateClose\<close> store nothing to it.
\<close>

theorem single_writer:
  "filter is_Store (fst (Monitor_body a m i)) = [] \<and>
   Load a (cell_value i) \<in> set (fst (Monitor_body a m i)) \<and>
   filter is_Store (fst (Monitor dbg a cpu ms)) = [] \<and>
   (\<forall>b v. Store b v \<in> set (fst (Worker dbg' a cpu' create ws lookup cell)) \<longrightarrow>
      b = a \<and>
      (v = MAGIC \<or>
       (\<exists>w\<in>set ws. unload_wait w \<noteq> STATUS_SUCCESS \<and> Worker_writes (TimeStamp w) \<and>
                    v = TimeStamp w))) \<and>
   filter is_Store (fst (DriverEntry device DeviceObject symlink thread)) = [] \<and>
   filter is_Store (DriverUnload lookup') = [] \<and>
   filter is_Store (fst (DrvCreateClose IoStatus)) = []"
proof -
  have 1: "filter is_Store (fst (Monitor_body a m i)) = []"
    by (rule Monitor_body_no_Store)
  have 2: "Load a (cell_value i) \<in> set (fst (Monitor_body a m i))"
    by (simp add: Monitor_body_def INTERRUPT_GUARD_def Let_def)
  have 3: "filter is_Store (fst (Monitor dbg a cpu ms)) = []"
    by (rule Monitor_no_Store)
  have 4: "\<forall>b v. Store b v \<in> set (fst (Worker dbg' a cpu' create ws lookup cell)) \<longrightarrow>
      b = a \<and>
      (v = MAGIC \<or>
       (\<exists>w\<in>set ws. unload_wait w \<noteq> STATUS_SUCCESS \<and> Worker_writes (TimeStamp w) \<and>
                    v = TimeStamp w))"
    using Worker_stores by blast
  have 5: "filter is_Store (fst (DriverEntry device DeviceObject symlink thread)) = []"
    by (simp add: DriverEntry_def Let_def)
  have 6: "filter is_Store (DriverUnload lookup') = []"
    by (simp add: DriverUnload_def)
  have 7: "filter is_Store (fst (DrvCreateClose IoStatus)) = []"
    by (simp add: DrvCreateClose_def)
  from 1 2 3 4 5 6 7 show ?thesis by blast
qed

theorem single_writer_witness:
  "Store 0x1000 0x1200 \<in> set (fst (Worker True 0x1000 2 STATUS_SUCCESS
          [\<lparr>unload_wait = 0x102, TimeStamp = 0x1200\<rparr>,
           \<lparr>unload_wait = STATUS_SUCCESS, TimeStamp = 7\<rparr>] STATUS_SUCCESS 0)) \<and>
   unload_wait \<lparr>unload_wait = 0x102, TimeStamp = 0x1200\<rparr> \<noteq> STATUS_SUCCESS \<and>
   Worker_writes 0x1200 \<and>
   filter is_Store (fst (Monitor True 0x1000 0
          [\<lparr>tsc_start = 10, cell_value = 0x1200, report_cpu = 0, tsc_report = 25\<rparr>])) = []"
proof -
  let ?ws = "[\<lparr>unload_wait = 0x102, TimeStamp = 0x1200\<rparr>,
              \<lparr>unload_wait = STATUS_SUCCESS, TimeStamp = 7\<rparr>]"
  have h: "Store 0x1000 0x1200 \<in> set (fst (Worker True 0x1000 2 STATUS_SUCCESS ?ws
             STATUS_SUCCESS 0))"
    by (simp add: Worker_def Worker_loop_Cons Worker_body_def Worker_writes_def
          Worker_join_def NT_ASSERT_def Worker_assertion_def WORKER_THREAD_CPU_AFFINITY_def
          NT_SUCCESS_def STATUS_SUCCESS_def)
  have w: "Worker_writes 0x1200 \<and>
           unload_wait \<lparr>unload_wait = 0x102, TimeStamp = 0x1200\<rparr> \<noteq> STATUS_SUCCESS"
    by (simp add: Worker_writes_def STATUS_SUCCESS_def)
  from single_writer [of "0x1000" 0
      "\<lparr>tsc_start = 10, cell_value = 0x1200, report_cpu = 0, tsc_report = 25\<rparr>" True 0
      "[\<lparr>tsc_start = 10, cell_value = 0x1200, report_cpu = 0, tsc_report = 25\<rparr>]"
      True 2 STATUS_SUCCESS ?ws STATUS_SUCCESS 0]
  have "filter is_Store (fst (Monitor True 0x1000 0
          [\<lparr>tsc_start = 10, cell_value = 0x1200, report_cpu = 0, tsc_report = 25\<rparr>])) = []"
    by blast
  with h w show ?thesis by blast
qed

text \<open>
  C9. A time stamp that the Worker stores (its low byte is zero) is never
  \<^verbatim>\<open>mw::MAGIC\<close>, whose low byte is \<open>0xFF\<close>.
\<close>

theorem Worker_writes_never_MAGIC:
  "Worker_writes t \<Longrightarrow> t \<noteq> MAGIC \<and> MAGIC AND 0xff = 0xff"
  by (auto simp: Worker_writes_def MAGIC_def)

theorem Worker_writes_never_MAGIC_witness:
  "Worker_writes 0x1200 \<and> (0x1200 :: ULONG64) \<noteq> MAGIC"
proof -
  have h: "Worker_writes 0x1200" by (simp add: Worker_writes_def)
  from h Worker_writes_never_MAGIC [OF h] show ?thesis by simp
qed

text \<open>
  C10. When the creation of the Monitor thread fails, the Worker stores nothing and
  never waits on the unload event: the cell keeps its content (its initial value 0 when
  nothing else has written it), and the run is over. Where the assertion of line 115
  lets execution go on, the Worker returns after the thread creation and the log message.
\<close>

theorem Worker_monitor_creation_failure:
  "\<not> NT_SUCCESS create \<Longrightarrow>
   filter is_Store (fst (Worker dbg a cpu create inputs lookup cell)) = [] \<and>
   fst (snd (Worker dbg a cpu create inputs lookup cell)) = cell \<and>
   fst (snd (Worker dbg a cpu create inputs lookup TestVariable)) = 0 \<and>
   (\<forall>t s. KeWaitForSingleObject_Unload t s \<notin> set (fst (Worker dbg a cpu create inputs lookup cell))) \<and>
   snd (snd (Worker dbg a cpu create inputs lookup cell)) \<noteq> Pending \<and>
   (NT_ASSERT dbg (Worker_assertion cpu) \<longrightarrow>
      Worker dbg a cpu create inputs lookup cell =
        ([KeSetSystemAffinityThread WORKER_THREAD_CPU_AFFINITY,
          PsCreateSystemThread MonitorRoutine create, Log (UnableToCreateThread create)],
         cell, Returned))"
  by (simp add: Worker_def Let_def TestVariable_def)

theorem Worker_monitor_creation_failure_witness:
  "\<not> NT_SUCCESS 0xC000009A \<and> NT_ASSERT True (Worker_assertion 2) \<and>
   Worker True 0x1000 2 0xC000009A
     [\<lparr>unload_wait = 0x102, TimeStamp = 0x1200\<rparr>] STATUS_SUCCESS TestVariable =
     ([KeSetSystemAffinityThread WORKER_THREAD_CPU_AFFINITY,
       PsCreateSystemThread MonitorRoutine 0xC000009A, Log (UnableToCreateThread 0xC000009A)],
      0, Returned)"
proof -
  have h: "\<not> NT_SUCCESS 0xC000009A" by (simp add: NT_SUCCESS_def)
  have g: "NT_ASSERT True (Worker_assertion 2)"
    by (simp add: NT_ASSERT_def Worker_assertion_def WORKER_THREAD_CPU_AFFINITY_def)
  from h g
    Worker_monitor_creation_failure [OF h, of True "0x1000" 2
      "[\<lparr>unload_wait = 0x102, TimeStamp = 0x1200\<rparr>]" STATUS_SUCCESS TestVariable]
  show ?thesis by (simp add: TestVariable_def)
qed

end
